theory Spec2Isabelle
  imports Main "HOL-Library.Sublist"
begin

section \<open>The staged pipeline of \<open>src/run.ts\<close>\<close>

text \<open>
  \<open>run.ts\<close> drives a fixed list of named stages through \<open>runStage\<close>, threading one
  \<open>DataCollector\<close> through all of them and a second, throw-away collector through the
  base-coverage stage. The file under verification is \<open>run.ts\<close>; \<open>runStage\<close> and the
  \<open>DataCollector\<close> live in \<open>utils/\<close> and are modelled from the specification, and the
  collaborators the stage bodies call (\<open>getOptions\<close>, \<open>getCoverage\<close>, \<open>switchBranch\<close>,
  \<open>createReport\<close>, the Octokit client, the annotation builders) are parameters of the
  model, collected in an environment record. A parameter takes the arguments of the
  source function, then the world, a collector argument last. The \<open>console.log\<close> calls of \<open>run\<close> have no
  bearing on its control flow and are left out.
\<close>

subsection \<open>Data\<close>

type_synonym cause = string

text \<open>An error record \<open>{stage, cause}\<close>; the cause is opaque to the engine.\<close>

record error_record =
  stage :: string
  cause :: cause

text \<open>
  \<open>JsonReport\<close> is an object whose content the engine never inspects: a mapping from
  field names to values. An object is always truthy in JavaScript, so the tests
  \<open>if (headCoverage)\<close> and \<open>if (baseCoverage)\<close> only ask whether the value is defined.
\<close>

type_synonym JsonReport = "string \<rightharpoonup> string"

record collector =
  errors :: "error_record list"
  data :: JsonReport

text \<open>The operations a holder of a collector can perform on it.\<close>

datatype cop = Add JsonReport | AddError string cause

record SummaryReport =
  summaryText :: string
  runReport :: string

record Options =
  token :: string
  coverageFile :: "string option"
  baseCoverageFile :: "string option"
  skipStep :: string
  annotations :: string

text \<open>The part of the payload's \<open>pull_request\<close> that \<open>run\<close> reads: \<open>base\<close> (the field
  \<open>pr_base\<close>), which may be missing, and its \<open>ref\<close>.\<close>

record pull_request_base =
  ref :: "string option"

record pull_request =
  pr_base :: "pull_request_base option"

text \<open>What a stage body does: return a value, call \<open>skip()\<close>, or throw.\<close>

datatype 'a body_result = Returned 'a | Skipped | Threw cause

text \<open>The outcome \<open>runStage\<close> reports for a stage in its telemetry.\<close>

datatype stage_status = Completed | SkippedStage | Failed

text \<open>The two collector objects \<open>run\<close> holds references to.\<close>

datatype cref = DataCollector | IgnoreCollector

datatype run_error = Error string

text \<open>
  The state of a run: the outside world the collaborators act on (\<open>'w\<close>, opaque), the
  store holding the two collectors, the telemetry of \<open>runStage\<close> (stage name and
  outcome, in invocation order) and the failure marker of the host process, set by
  \<open>setFailed\<close> of \<open>@actions/core\<close>.
\<close>

record 'w state =
  world :: 'w
  store :: "cref \<Rightarrow> collector"
  stageLog :: "(string \<times> stage_status) list"
  hostFailed :: "string option"

type_synonym ('w, 'a) body = "'w state \<Rightarrow> 'a body_result \<times> 'w state"

text \<open>A collaborator either throws (\<open>Inl\<close>) or returns (\<open>Inr\<close>), and moves the world on.\<close>

type_synonym ('w, 'a) effect = "'w \<Rightarrow> (cause + 'a) \<times> 'w"

text \<open>
  A collaborator that is handed a collector sees its current content and answers with
  the operations it performs on that collector, next to its result.
\<close>

type_synonym ('w, 'a) collecting = "'w \<Rightarrow> collector \<Rightarrow> (cop list \<times> (cause + 'a)) \<times> 'w"

text \<open>
  The environment of a run: the GitHub context and the imported functions whose
  sources are not part of the file under verification.
\<close>

record 'w env =
  eventName :: string
  payload_pull_request :: "pull_request option"
  repo :: string
  getOptions :: "'w \<Rightarrow> Options body_result \<times> 'w"
  shouldRunTestScript :: "string \<Rightarrow> bool"
  getCoverage :: "Options \<Rightarrow> string option \<Rightarrow> ('w, JsonReport) collecting"
  switchBranch :: "string option \<Rightarrow> ('w, unit) effect"
  createReport :: "Options \<Rightarrow> ('w, SummaryReport) collecting"
  getOctokit :: "string \<Rightarrow> ('w, string) effect"
  generatePRReport ::
    "string \<Rightarrow> Options \<Rightarrow> string \<Rightarrow> pull_request option \<Rightarrow> string \<Rightarrow> ('w, unit) effect"
  generateCommitReport :: "string \<Rightarrow> string \<Rightarrow> string \<Rightarrow> ('w, unit) effect"
  createFailedTestsAnnotations :: "JsonReport option \<Rightarrow> ('w, string list) effect"
  createCoverageAnnotations :: "JsonReport option \<Rightarrow> ('w, string list) effect"
  formatFailedTestsAnnotations :: "string \<Rightarrow> string list \<Rightarrow> ('w, string) effect"
  formatCoverageAnnotations :: "string list \<Rightarrow> ('w, string) effect"
  checks_create :: "string \<Rightarrow> string \<Rightarrow> ('w, unit) effect"
  i18n :: "string \<Rightarrow> string"

text \<open>The local variables of \<open>run\<close>, as they stand when \<open>run\<close> returns.\<close>

record locals =
  isInPR :: bool
  options :: Options
  isHeadCoverageGenerated :: bool
  headCoverage :: "JsonReport option"
  isSwitched :: bool
  baseCoverage :: "JsonReport option"
  isReportContentGenerated :: bool
  summaryReport :: "SummaryReport option"

subsection \<open>The result accumulator\<close>

text \<open>
  \<open>utils/DataCollector\<close> is not among the sources; its four operations follow
  section 4.1 of the specification.
\<close>

text \<open>Modelled from the spec: \<open>createDataCollector\<close> of the missing \<open>utils/DataCollector\<close>;
  a fresh accumulator has no errors and no partial results.\<close>

definition createDataCollector :: collector where
  "createDataCollector = \<lparr>errors = [], data = Map.empty\<rparr>"

text \<open>Modelled from the spec: \<open>add(partial)\<close> of the missing \<open>utils/DataCollector\<close>; the
  fields of \<open>partial\<close> overwrite or extend the same-named fields, last write wins, and
  the error list is never passed through \<open>add\<close>.\<close>

definition add :: "JsonReport \<Rightarrow> collector \<Rightarrow> collector" where
  "add partial c = c\<lparr>data := data c ++ partial\<rparr>"

text \<open>Modelled from the spec: \<open>get()\<close> of the missing \<open>utils/DataCollector\<close>; it returns
  the current accumulated state, error list included.\<close>

definition get :: "collector \<Rightarrow> collector" where
  "get c = c"

text \<open>Modelled from the spec: \<open>addError(stage, cause)\<close> of the missing
  \<open>utils/DataCollector\<close>; it appends one error record and never fails.\<close>

definition addError :: "string \<Rightarrow> cause \<Rightarrow> collector \<Rightarrow> collector" where
  "addError name e c = c\<lparr>errors := errors c @ [\<lparr>stage = name, cause = e\<rparr>]\<rparr>"

text \<open>What a collaborator does to the collector it holds, one operation after the other.\<close>

fun apply_op :: "cop \<Rightarrow> collector \<Rightarrow> collector" where
  "apply_op (Add partial) c = add partial c"
| "apply_op (AddError name e) c = addError name e c"

fun apply_ops :: "cop list \<Rightarrow> collector \<Rightarrow> collector" where
  "apply_ops [] c = c"
| "apply_ops (x # xs) c = apply_ops xs (apply_op x c)"

text \<open>The error records a list of operations appends, in order.\<close>

fun recorded :: "cop list \<Rightarrow> error_record list" where
  "recorded [] = []"
| "recorded (Add partial # xs) = recorded xs"
| "recorded (AddError name e # xs) = \<lparr>stage = name, cause = e\<rparr> # recorded xs"

subsection \<open>Stage bodies\<close>

definition ret :: "'a \<Rightarrow> ('w, 'a) body" where
  "ret v = (\<lambda>s. (Returned v, s))"

text \<open>\<open>skip()\<close> has type \<open>() => never\<close>: control leaves the body at the call.\<close>

definition skip :: "('w, 'a) body" where
  "skip = (\<lambda>s. (Skipped, s))"

definition throw :: "cause \<Rightarrow> ('w, 'a) body" where
  "throw e = (\<lambda>s. (Threw e, s))"

text \<open>Sequencing of statements: a skip or a throw leaves the rest unexecuted.\<close>

definition andThen :: "('w, 'a) body \<Rightarrow> ('a \<Rightarrow> ('w, 'b) body) \<Rightarrow> ('w, 'b) body" where
  "andThen m f = (\<lambda>s.
     case m s of
       (Returned v, s') \<Rightarrow> f v s'
     | (Skipped, s') \<Rightarrow> (Skipped, s')
     | (Threw e, s') \<Rightarrow> (Threw e, s'))"

text \<open>The statement \<open>if (c) { skip(); }\<close>.\<close>

definition skipIf :: "bool \<Rightarrow> ('w, unit) body" where
  "skipIf c = (if c then skip else ret ())"

text \<open>A function that is itself the stage body (\<open>getOptions\<close>): it is handed \<open>skip\<close>.\<close>

definition asBody :: "('w \<Rightarrow> 'a body_result \<times> 'w) \<Rightarrow> ('w, 'a) body" where
  "asBody f = (\<lambda>s. case f (world s) of (r, w') \<Rightarrow> (r, s\<lparr>world := w'\<rparr>))"

text \<open>Calling (and awaiting) a collaborator from inside a body.\<close>

definition call :: "('w, 'a) effect \<Rightarrow> ('w, 'a) body" where
  "call f = (\<lambda>s.
     case f (world s) of
       (Inl e, w') \<Rightarrow> (Threw e, s\<lparr>world := w'\<rparr>)
     | (Inr v, w') \<Rightarrow> (Returned v, s\<lparr>world := w'\<rparr>))"

text \<open>Calling a collaborator with a collector as its first argument.\<close>

definition callWith :: "cref \<Rightarrow> ('w, 'a) collecting \<Rightarrow> ('w, 'a) body" where
  "callWith a f = (\<lambda>s.
     case f (world s) (get (store s a)) of
       ((ops, r), w') \<Rightarrow>
         (let s' = s\<lparr>world := w', store := (store s)(a := apply_ops ops (store s a))\<rparr>
          in case r of Inl e \<Rightarrow> (Threw e, s') | Inr v \<Rightarrow> (Returned v, s')))"

definition TypeError :: cause where
  "TypeError = ''TypeError: Cannot read properties of undefined''"

text \<open>
  Reading a property of \<open>x!\<close>: the non-null assertion is erased by the compiler, so the
  property access throws a \<open>TypeError\<close> when \<open>x\<close> is \<open>undefined\<close>.
\<close>

definition nonNull :: "'a option \<Rightarrow> ('w, 'a) body" where
  "nonNull x = (case x of None \<Rightarrow> throw TypeError | Some v \<Rightarrow> ret v)"

text \<open>JavaScript truthiness of a \<open>string | undefined\<close>.\<close>

definition truthy :: "string option \<Rightarrow> bool" where
  "truthy x = (case x of None \<Rightarrow> False | Some v \<Rightarrow> v \<noteq> [])"

subsection \<open>The stage runner\<close>

definition logStage :: "string \<Rightarrow> stage_status \<Rightarrow> 'w state \<Rightarrow> 'w state" where
  "logStage name st s = s\<lparr>stageLog := stageLog s @ [(name, st)]\<rparr>"

definition recordError :: "cref \<Rightarrow> string \<Rightarrow> cause \<Rightarrow> 'w state \<Rightarrow> 'w state" where
  "recordError a name e s = s\<lparr>store := (store s)(a := addError name e (store s a))\<rparr>"

text \<open>
  Modelled from the spec: \<open>runStage\<close> of the missing \<open>utils/runStage\<close>. Section 4.2:
  the body is invoked with the \<open>skip\<close> capability; a body that returns gives
  \<open>(true, value)\<close> and no error; a body that calls \<open>skip()\<close> gives \<open>(false, undefined)\<close>
  and no error; a body that throws gives \<open>(false, undefined)\<close> and one error record
  \<open>{stage: name, cause}\<close> appended to the accumulator passed in. The stage name and
  its outcome are logged. The result is a plain pair: nothing is rethrown.
\<close>

definition runStage ::
  "string \<Rightarrow> cref \<Rightarrow> ('w, 'a) body \<Rightarrow> 'w state \<Rightarrow> (bool \<times> 'a option) \<times> 'w state" where
  "runStage name a action s =
     (case action s of
        (Returned v, s') \<Rightarrow> ((True, Some v), logStage name Completed s')
      | (Skipped, s') \<Rightarrow> ((False, None), logStage name SkippedStage s')
      | (Threw e, s') \<Rightarrow> ((False, None), logStage name Failed (recordError a name e s')))"

subsection \<open>The bodies of the stages of \<open>run\<close>\<close>

text \<open>Lines 38--44.\<close>

definition headCoverage_body :: "'w env \<Rightarrow> Options \<Rightarrow> ('w, JsonReport) body" where
  "headCoverage_body env opts =
     callWith DataCollector (getCoverage env opts (coverageFile opts))"

text \<open>
  The expression \<open>context.payload.pull_request?.base.ref\<close> of line 62. The \<open>?.\<close>
  guards \<open>pull_request\<close> only: without a pull request the value is \<open>undefined\<close>, and
  with a pull request that has no \<open>base\<close> the read of \<open>.ref\<close> throws a \<open>TypeError\<close>.
\<close>

definition pullRequestBaseRef :: "pull_request option \<Rightarrow> cause + string option" where
  "pullRequestBaseRef pr =
     (case pr of
        None \<Rightarrow> Inr None
      | Some p \<Rightarrow> (case pr_base p of None \<Rightarrow> Inl TypeError | Some b \<Rightarrow> Inr (ref b)))"

text \<open>Evaluating, inside a body, an expression that may throw.\<close>

definition evaluate :: "cause + 'a \<Rightarrow> ('w, 'a) body" where
  "evaluate r = (case r of Inl e \<Rightarrow> throw e | Inr v \<Rightarrow> ret v)"

text \<open>Lines 61--69.\<close>

definition switchToBase_body :: "'w env \<Rightarrow> bool \<Rightarrow> ('w, unit) body" where
  "switchToBase_body env inPR =
     andThen (evaluate (pullRequestBaseRef (payload_pull_request env))) (\<lambda>baseBranch.
     andThen (skipIf (\<not> inPR \<or> \<not> truthy baseBranch))
       (\<lambda>_. call (switchBranch env baseBranch)))"

text \<open>Lines 80--90: the collaborator is handed \<open>ignoreCollector\<close>.\<close>

definition baseCoverage_body :: "'w env \<Rightarrow> Options \<Rightarrow> bool \<Rightarrow> ('w, JsonReport) body" where
  "baseCoverage_body env opts switched =
     andThen (skipIf (\<not> switched))
       (\<lambda>_. callWith IgnoreCollector (getCoverage env opts (baseCoverageFile opts)))"

text \<open>Lines 108--110.\<close>

definition generateReportContent_body :: "'w env \<Rightarrow> Options \<Rightarrow> ('w, SummaryReport) body" where
  "generateReportContent_body env opts = callWith DataCollector (createReport env opts)"

text \<open>Lines 119--141; the arguments of a call are evaluated left to right. The field
  \<open>summaryText\<close> is \<open>summaryReport.text\<close>.\<close>

definition publishReport_body ::
  "'w env \<Rightarrow> bool \<Rightarrow> Options \<Rightarrow> bool \<Rightarrow> SummaryReport option \<Rightarrow> ('w, unit) body" where
  "publishReport_body env inPR opts reportGenerated report =
     andThen (skipIf (\<not> reportGenerated)) (\<lambda>_.
     andThen (call (getOctokit env (token opts))) (\<lambda>octokit.
       if inPR then
         andThen (nonNull report) (\<lambda>r.
           call (generatePRReport env (summaryText r) opts (repo env) (payload_pull_request env) octokit))
       else
         andThen (nonNull report) (\<lambda>r.
           call (generateCommitReport env (summaryText r) (repo env) octokit))))"

text \<open>Lines 149--170.\<close>

definition failedTestsAnnotations_body ::
  "'w env \<Rightarrow> Options \<Rightarrow> bool \<Rightarrow> JsonReport option \<Rightarrow> SummaryReport option \<Rightarrow> ('w, unit) body" where
  "failedTestsAnnotations_body env opts headGenerated head report =
     andThen (skipIf (\<not> headGenerated \<or> \<not> annotations opts \<in> set [''all'', ''failed-tests''])) (\<lambda>_.
     andThen (call (createFailedTestsAnnotations env head)) (\<lambda>failedAnnotations.
     andThen (skipIf (length failedAnnotations = 0)) (\<lambda>_.
     andThen (call (getOctokit env (token opts))) (\<lambda>octokit.
     andThen (nonNull report) (\<lambda>r.
     andThen (call (formatFailedTestsAnnotations env (runReport r) failedAnnotations)) (\<lambda>req.
       call (checks_create env octokit req)))))))"

text \<open>Lines 178--196.\<close>

definition coverageAnnotations_body ::
  "'w env \<Rightarrow> Options \<Rightarrow> bool \<Rightarrow> JsonReport option \<Rightarrow> ('w, unit) body" where
  "coverageAnnotations_body env opts headGenerated head =
     andThen (skipIf (\<not> headGenerated \<or> \<not> annotations opts \<in> set [''all'', ''coverage''])) (\<lambda>_.
     andThen (call (createCoverageAnnotations env head)) (\<lambda>coverageAnnotations.
     andThen (skipIf (length coverageAnnotations = 0)) (\<lambda>_.
     andThen (call (getOctokit env (token opts))) (\<lambda>octokit.
     andThen (call (formatCoverageAnnotations env coverageAnnotations)) (\<lambda>req.
       call (checks_create env octokit req))))))"

subsection \<open>The statements of \<open>run\<close>, stage by stage\<close>

text \<open>\<open>if (x) { dataCollector.add(x); }\<close>, lines 47--49 and 94--96.\<close>

definition addIfDefined :: "JsonReport option \<Rightarrow> 'w state \<Rightarrow> 'w state" where
  "addIfDefined x s =
     (case x of
        None \<Rightarrow> s
      | Some v \<Rightarrow> s\<lparr>store := (store s)(DataCollector := add v (store s DataCollector))\<rparr>)"

text \<open>Lines 35--49.\<close>

definition stage_headCoverage ::
  "'w env \<Rightarrow> Options \<Rightarrow> 'w state \<Rightarrow> (bool \<times> JsonReport option) \<times> 'w state" where
  "stage_headCoverage env opts s =
     (case runStage ''headCoverage'' DataCollector (headCoverage_body env opts) s of
        ((generated, head), s') \<Rightarrow> ((generated, head), addIfDefined head s'))"

text \<open>Lines 51--73: the stage is invoked only under the guard; otherwise
  \<open>isSwitched\<close> keeps its initial value \<open>true\<close>.\<close>

definition stage_switchToBase :: "'w env \<Rightarrow> bool \<Rightarrow> Options \<Rightarrow> 'w state \<Rightarrow> bool \<times> 'w state" where
  "stage_switchToBase env inPR opts s =
     (if \<not> truthy (baseCoverageFile opts) \<and> shouldRunTestScript env (skipStep opts) then
        (case runStage ''switchToBase'' DataCollector (switchToBase_body env inPR) s of
           ((switched, _), s') \<Rightarrow> (switched, s'))
      else (True, s))"

text \<open>Lines 75--96: a fresh \<open>ignoreCollector\<close> is created; the stage itself runs
  against \<open>dataCollector\<close>.\<close>

definition stage_baseCoverage ::
  "'w env \<Rightarrow> Options \<Rightarrow> bool \<Rightarrow> 'w state \<Rightarrow> JsonReport option \<times> 'w state" where
  "stage_baseCoverage env opts switched s =
     (let s0 = s\<lparr>store := (store s)(IgnoreCollector := createDataCollector)\<rparr>
      in case runStage ''baseCoverage'' DataCollector (baseCoverage_body env opts switched) s0 of
           ((_, base), s') \<Rightarrow> (base, addIfDefined base s'))"

text \<open>Lines 105--111.\<close>

definition stage_generateReportContent ::
  "'w env \<Rightarrow> Options \<Rightarrow> 'w state \<Rightarrow> (bool \<times> SummaryReport option) \<times> 'w state" where
  "stage_generateReportContent env opts s =
     runStage ''generateReportContent'' DataCollector (generateReportContent_body env opts) s"

text \<open>Lines 119--141.\<close>

definition stage_publishReport ::
  "'w env \<Rightarrow> bool \<Rightarrow> Options \<Rightarrow> bool \<Rightarrow> SummaryReport option \<Rightarrow> 'w state \<Rightarrow> 'w state" where
  "stage_publishReport env inPR opts reportGenerated report s =
     snd (runStage ''publishReport'' DataCollector
            (publishReport_body env inPR opts reportGenerated report) s)"

text \<open>Lines 149--170.\<close>

definition stage_failedTestsAnnotations ::
  "'w env \<Rightarrow> Options \<Rightarrow> bool \<Rightarrow> JsonReport option \<Rightarrow> SummaryReport option \<Rightarrow> 'w state \<Rightarrow> 'w state" where
  "stage_failedTestsAnnotations env opts headGenerated head report s =
     snd (runStage ''failedTestsAnnotations'' DataCollector
            (failedTestsAnnotations_body env opts headGenerated head report) s)"

text \<open>Lines 178--196.\<close>

definition stage_coverageAnnotations ::
  "'w env \<Rightarrow> Options \<Rightarrow> bool \<Rightarrow> JsonReport option \<Rightarrow> 'w state \<Rightarrow> 'w state" where
  "stage_coverageAnnotations env opts headGenerated head s =
     snd (runStage ''coverageAnnotations'' DataCollector
            (coverageAnnotations_body env opts headGenerated head) s)"

definition setFailed :: "string \<Rightarrow> 'w state \<Rightarrow> 'w state" where
  "setFailed msg s = s\<lparr>hostFailed := Some msg\<rparr>"

text \<open>Lines 200--203.\<close>

definition finish :: "'w env \<Rightarrow> 'w state \<Rightarrow> 'w state" where
  "finish env s =
     (if length (errors (get (store s DataCollector))) > 0
      then setFailed (i18n env ''failed'') s else s)"

subsection \<open>\<open>run\<close>\<close>

text \<open>Lines 35--203, entered once the options are resolved.\<close>

definition run_initialized :: "'w env \<Rightarrow> bool \<Rightarrow> Options \<Rightarrow> 'w state \<Rightarrow> locals \<times> 'w state" where
  "run_initialized env inPR opts s1 =
     (case stage_headCoverage env opts s1 of ((headGenerated, head), s2) \<Rightarrow>
      case stage_switchToBase env inPR opts s2 of (switched, s3) \<Rightarrow>
      case stage_baseCoverage env opts switched s3 of (base, s4) \<Rightarrow>
      case stage_generateReportContent env opts s4 of ((reportGenerated, report), s5) \<Rightarrow>
      let s6 = stage_publishReport env inPR opts reportGenerated report s5;
          s7 = stage_failedTestsAnnotations env opts headGenerated head report s6;
          s8 = stage_coverageAnnotations env opts headGenerated head s7
      in (\<lparr>isInPR = inPR, options = opts,
           isHeadCoverageGenerated = headGenerated, headCoverage = head,
           isSwitched = switched, baseCoverage = base,
           isReportContentGenerated = reportGenerated, summaryReport = report\<rparr>,
          finish env s8))"

text \<open>The state in which \<open>run\<close> starts: nothing logged, the host not marked failed.\<close>

definition initial :: "collector \<Rightarrow> 'w \<Rightarrow> 'w state" where
  "initial dataCollector w =
     \<lparr>world = w, store = (\<lambda>_. createDataCollector)(DataCollector := dataCollector),
      stageLog = [], hostFailed = None\<rparr>"

text \<open>
  \<open>run\<close>, lines 20--204. The parameter is the collector handed in (by default a fresh
  one). \<open>throw Error('Initialization failed.')\<close> is the result \<open>Inl\<close>; the test
  \<open>!isInitialized || !options\<close> is the \<open>if\<close>, and the inner \<open>case\<close> only unwraps the
  options, which are defined there.
\<close>

definition run :: "'w env \<Rightarrow> collector \<Rightarrow> 'w \<Rightarrow> (run_error + locals) \<times> 'w state" where
  "run env dataCollector w =
     (let inPR = (eventName env = ''pull_request'')
      in case runStage ''initialize'' DataCollector (asBody (getOptions env))
                (initial dataCollector w) of
           ((initialized, opts), s1) \<Rightarrow>
             if \<not> initialized \<or> opts = None then (Inl (Error ''Initialization failed.''), s1)
             else (case opts of
                     None \<Rightarrow> (Inl (Error ''Initialization failed.''), s1)
                   | Some o1 \<Rightarrow>
                       (case run_initialized env inPR o1 s1 of (l, s) \<Rightarrow> (Inr l, s))))"

subsection \<open>Auxiliary notions\<close>

text \<open>A body that acts on the outside world only: it leaves both collectors, the
  telemetry and the host's failure marker as they are.\<close>

definition worldOnly :: "('w, 'a) body \<Rightarrow> bool" where
  "worldOnly m = (\<forall>s. snd (m s) = s\<lparr>world := world (snd (m s))\<rparr>)"

text \<open>The status \<open>runStage\<close> logs for what the body did.\<close>

definition statusOf :: "'a body_result \<Rightarrow> stage_status" where
  "statusOf r = (case r of Returned v \<Rightarrow> Completed | Skipped \<Rightarrow> SkippedStage | Threw e \<Rightarrow> Failed)"

text \<open>The error record \<open>runStage\<close> appends for what the body did: one when it threw.\<close>

definition failureRecord :: "string \<Rightarrow> 'a body_result \<Rightarrow> error_record list" where
  "failureRecord name r =
     (case r of Returned v \<Rightarrow> [] | Skipped \<Rightarrow> [] | Threw e \<Rightarrow> [\<lparr>stage = name, cause = e\<rparr>])"

subsection \<open>Concrete runs\<close>

text \<open>
  The environments below are used to evaluate \<open>run\<close>. Their world is the list of the
  collaborators called so far, so a run shows which collaborator calls it reached.
\<close>

definition returns :: "string \<Rightarrow> 'a \<Rightarrow> (string list, 'a) effect" where
  "returns name v = (\<lambda>w. (Inr v, w @ [name]))"

definition throws :: "string \<Rightarrow> cause \<Rightarrow> (string list, 'a) effect" where
  "throws name e = (\<lambda>w. (Inl e, w @ [name]))"

definition options0 :: Options where
  "options0 = \<lparr>token = ''t0'', coverageFile = None, baseCoverageFile = None,
               skipStep = ''none'', annotations = ''all''\<rparr>"

text \<open>Scenario A: a pull request onto \<open>main\<close>; every collaborator succeeds.\<close>

definition scenarioA :: "string list env" where
  "scenarioA =
     \<lparr>eventName = ''pull_request'',
      payload_pull_request = Some \<lparr>pr_base = Some \<lparr>ref = Some ''main''\<rparr>\<rparr>,
      repo = ''owner/repo'',
      getOptions = (\<lambda>w. (Returned options0, w @ [''getOptions''])),
      shouldRunTestScript = (\<lambda>step. step \<noteq> ''all''),
      getCoverage = (\<lambda>opts file w c. (([], Inr [''coverage'' \<mapsto> ''80'']), w @ [''getCoverage''])),
      switchBranch = (\<lambda>branch. returns ''switchBranch'' ()),
      createReport =
        (\<lambda>opts w c. (([], Inr \<lparr>summaryText = ''report'', runReport = ''ok''\<rparr>),
                         w @ [''createReport''])),
      getOctokit = (\<lambda>tok. returns ''getOctokit'' ''octokit''),
      generatePRReport = (\<lambda>txt opts rp pr octokit. returns ''generatePRReport'' ()),
      generateCommitReport = (\<lambda>txt rp octokit. returns ''generateCommitReport'' ()),
      createFailedTestsAnnotations =
        (\<lambda>head. returns ''createFailedTestsAnnotations'' [''a test failed'']),
      createCoverageAnnotations =
        (\<lambda>head. returns ''createCoverageAnnotations'' [''line 3 not covered'']),
      formatFailedTestsAnnotations =
        (\<lambda>rr anns. returns ''formatFailedTestsAnnotations'' ''request''),
      formatCoverageAnnotations = (\<lambda>anns. returns ''formatCoverageAnnotations'' ''request''),
      checks_create = (\<lambda>octokit req. returns ''checks.create'' ()),
      i18n = (\<lambda>key. ''i18n:'' @ key)\<rparr>"

text \<open>Scenario B: \<open>getOptions\<close> throws.\<close>

definition scenarioB :: "string list env" where
  "scenarioB = scenarioA\<lparr>getOptions := (\<lambda>w. (Threw ''no token'', w @ [''getOptions'']))\<rparr>"

text \<open>Scenario C: a push event, no pull request in the payload.\<close>

definition scenarioC :: "string list env" where
  "scenarioC = scenarioA\<lparr>eventName := ''push'', payload_pull_request := None\<rparr>"

text \<open>\<open>createReport\<close> throws, coverage annotations are requested and the checks API
  rejects the request.\<close>

definition scenarioD_checks :: "string list env" where
  "scenarioD_checks = scenarioA
     \<lparr>getOptions :=
        (\<lambda>w. (Returned (options0\<lparr>annotations := ''coverage''\<rparr>), w @ [''getOptions''])),
      createReport := (\<lambda>opts w c. (([], Inl ''template missing''), w @ [''createReport''])),
      checks_create := (\<lambda>octokit req. throws ''checks.create'' ''HTTP 403'')\<rparr>"

text \<open>The base branch's coverage cannot be collected: after the switch of branch,
  \<open>getCoverage\<close> records the failure of its test run on the collector it was handed
  and throws.\<close>

definition scenarioBaseFails :: "string list env" where
  "scenarioBaseFails = scenarioA
     \<lparr>getCoverage := (\<lambda>opts file w c.
        if ''switchBranch'' \<in> set w
        then (([AddError ''runTest'' ''jest exited with 1''], Inl ''no base coverage''),
              w @ [''getCoverage''])
        else (([], Inr [''coverage'' \<mapsto> ''80'']), w @ [''getCoverage'']))\<rparr>"

text \<open>Scenario D: as scenario A, but \<open>createReport\<close> throws. Nothing else fails.\<close>

definition scenarioReportFails :: "string list env" where
  "scenarioReportFails = scenarioA
     \<lparr>createReport := (\<lambda>opts w c. (([], Inl ''template missing''), w @ [''createReport'']))\<rparr>"

text \<open>A payload whose \<open>pull_request\<close> carries no \<open>base\<close>.\<close>

definition scenarioNoBase :: "string list env" where
  "scenarioNoBase = scenarioA\<lparr>payload_pull_request := Some \<lparr>pr_base = None\<rparr>\<rparr>"

text \<open>A push event with a base coverage file configured.\<close>

definition scenarioBaseFile :: "string list env" where
  "scenarioBaseFile = scenarioC
     \<lparr>getOptions :=
        (\<lambda>w. (Returned (options0\<lparr>baseCoverageFile := Some ''base.json''\<rparr>),
               w @ [''getOptions'']))\<rparr>"

section \<open>Properties of the model\<close>

subsection \<open>The accumulator\<close>

lemmas body_defs = ret_def skip_def throw_def andThen_def skipIf_def asBody_def call_def
  callWith_def nonNull_def truthy_def evaluate_def pullRequestBaseRef_def

lemmas collector_defs = createDataCollector_def add_def get_def addError_def

lemma errors_add: "errors (add partial c) = errors c"
  by (simp add: add_def)

lemma errors_addError: "errors (addError name e c) = errors c @ [\<lparr>stage = name, cause = e\<rparr>]"
  by (simp add: addError_def)

lemma errors_apply_op: "errors (apply_op x c) = errors c @ recorded [x]"
  by (cases x) (simp_all add: errors_add errors_addError)

lemma errors_apply_ops: "errors (apply_ops ops c) = errors c @ recorded ops"
proof (induction ops arbitrary: c)
  case Nil
  show ?case by simp
next
  case (Cons x xs)
  show ?case by (cases x) (simp_all add: Cons.IH errors_add errors_addError)
qed

subsection \<open>The stage runner\<close>

lemma runStage_fst:
  "fst (runStage name a m s) =
     (case fst (m s) of Returned v \<Rightarrow> (True, Some v) | Skipped \<Rightarrow> (False, None)
      | Threw e \<Rightarrow> (False, None))"
  by (simp add: runStage_def split: prod.splits body_result.splits)

lemma runStage_world: "world (snd (runStage name a m s)) = world (snd (m s))"
  by (simp add: runStage_def logStage_def recordError_def split: prod.splits body_result.splits)

lemma runStage_hostFailed: "hostFailed (snd (runStage name a m s)) = hostFailed (snd (m s))"
  by (simp add: runStage_def logStage_def recordError_def split: prod.splits body_result.splits)

lemma runStage_stageLog:
  "stageLog (snd (runStage name a m s)) = stageLog (snd (m s)) @ [(name, statusOf (fst (m s)))]"
  by (simp add: runStage_def logStage_def recordError_def statusOf_def
      split: prod.splits body_result.splits)

lemma runStage_store:
  "store (snd (runStage name a m s)) b =
     (case fst (m s) of
        Threw e \<Rightarrow> if b = a then addError name e (store (snd (m s)) a) else store (snd (m s)) b
      | _ \<Rightarrow> store (snd (m s)) b)"
  by (simp add: runStage_def logStage_def recordError_def split: prod.splits body_result.splits)

lemma runStage_errors:
  "errors (store (snd (runStage name a m s)) a) =
     errors (store (snd (m s)) a) @
     failureRecord name (fst (m s))"
  by (simp add: runStage_store errors_addError failureRecord_def split: body_result.splits)

subsection \<open>Bodies acting on the world only\<close>

lemma worldOnly_ret: "worldOnly (ret v)"
  by (simp add: worldOnly_def ret_def)

lemma worldOnly_skip: "worldOnly skip"
  by (simp add: worldOnly_def skip_def)

lemma worldOnly_throw: "worldOnly (throw e)"
  by (simp add: worldOnly_def throw_def)

lemma worldOnly_skipIf: "worldOnly (skipIf c)"
  by (simp add: skipIf_def worldOnly_skip worldOnly_ret)

lemma worldOnly_nonNull: "worldOnly (nonNull x)"
  by (cases x) (simp_all add: nonNull_def worldOnly_throw worldOnly_ret)

lemma worldOnly_call: "worldOnly (call f)"
  by (simp add: worldOnly_def call_def split: prod.splits sum.splits)

lemma worldOnly_asBody: "worldOnly (asBody f)"
  by (simp add: worldOnly_def asBody_def split: prod.splits)

lemma worldOnly_andThen:
  assumes m: "worldOnly m" and f: "\<And>v. worldOnly (f v)"
  shows "worldOnly (andThen m f)"
  unfolding worldOnly_def
proof
  fix s
  obtain r s1 where ms: "m s = (r, s1)" by (cases "m s")
  from m ms have s1: "s1 = s\<lparr>world := world s1\<rparr>"
    unfolding worldOnly_def by (metis snd_conv)
  show "snd (andThen m f s) = s\<lparr>world := world (snd (andThen m f s))\<rparr>"
  proof (cases r)
    case (Returned v)
    from f [of v] have "snd (f v s1) = s1\<lparr>world := world (snd (f v s1))\<rparr>"
      unfolding worldOnly_def by blast
    with s1 have "snd (f v s1) = s\<lparr>world := world (snd (f v s1))\<rparr>"
      by (metis state.update_convs(1) state.surjective state.select_convs(1))
    with Returned ms show ?thesis by (simp add: andThen_def)
  next
    case Skipped
    with ms s1 show ?thesis by (simp add: andThen_def)
  next
    case (Threw e)
    with ms s1 show ?thesis by (simp add: andThen_def)
  qed
qed

lemma worldOnly_fields:
  assumes "worldOnly m"
  shows "stageLog (snd (m s)) = stageLog s" and "hostFailed (snd (m s)) = hostFailed s"
    and "store (snd (m s)) = store s"
proof -
  from assms have eq: "snd (m s) = s\<lparr>world := world (snd (m s))\<rparr>"
    unfolding worldOnly_def by blast
  show "stageLog (snd (m s)) = stageLog s" by (subst eq) simp
  show "hostFailed (snd (m s)) = hostFailed s" by (subst eq) simp
  show "store (snd (m s)) = store s" by (subst eq) simp
qed

lemma worldOnly_evaluate: "worldOnly (evaluate r)"
  by (cases r) (simp_all add: evaluate_def worldOnly_throw worldOnly_ret)

lemma worldOnly_switchToBase: "worldOnly (switchToBase_body env inPR)"
  unfolding switchToBase_body_def
  by (intro worldOnly_andThen worldOnly_evaluate worldOnly_skipIf worldOnly_call)

lemma worldOnly_publishReport: "worldOnly (publishReport_body env inPR opts g r)"
  by (simp add: publishReport_body_def worldOnly_andThen worldOnly_skipIf worldOnly_call
      worldOnly_nonNull)

lemma worldOnly_failedTestsAnnotations: "worldOnly (failedTestsAnnotations_body env opts g h r)"
  unfolding failedTestsAnnotations_body_def
  by (intro worldOnly_andThen worldOnly_skipIf worldOnly_call worldOnly_nonNull)

lemma worldOnly_coverageAnnotations: "worldOnly (coverageAnnotations_body env opts g h)"
  unfolding coverageAnnotations_body_def
  by (intro worldOnly_andThen worldOnly_skipIf worldOnly_call worldOnly_nonNull)

subsection \<open>Bodies handed a collector\<close>

lemma callWith_fields:
  "stageLog (snd (callWith a f s)) = stageLog s"
  "hostFailed (snd (callWith a f s)) = hostFailed s"
  "b \<noteq> a \<Longrightarrow> store (snd (callWith a f s)) b = store s b"
  "store (snd (callWith a f s)) a = apply_ops (fst (fst (f (world s) (store s a)))) (store s a)"
  "fst (callWith a f s) =
     (case snd (fst (f (world s) (store s a))) of Inl e \<Rightarrow> Threw e | Inr v \<Rightarrow> Returned v)"
  "world (snd (callWith a f s)) = snd (f (world s) (store s a))"
  by (simp_all add: callWith_def get_def Let_def split: prod.splits sum.splits)

lemma baseCoverage_body_fields:
  "stageLog (snd (baseCoverage_body env opts sw s)) = stageLog s"
  "hostFailed (snd (baseCoverage_body env opts sw s)) = hostFailed s"
  "store (snd (baseCoverage_body env opts sw s)) DataCollector = store s DataCollector"
  by (simp_all add: baseCoverage_body_def andThen_def skipIf_def skip_def ret_def callWith_fields
      split: prod.splits body_result.splits)

lemma addIfDefined_fields:
  "stageLog (addIfDefined x s) = stageLog s"
  "hostFailed (addIfDefined x s) = hostFailed s"
  "world (addIfDefined x s) = world s"
  "errors (store (addIfDefined x s) b) = errors (store s b)"
  "store (addIfDefined x s) IgnoreCollector = store s IgnoreCollector"
  by (simp_all add: addIfDefined_def errors_add split: option.splits)

subsection \<open>The stages\<close>

lemma stage_headCoverage_fields:
  "hostFailed (snd (stage_headCoverage env opts s)) = hostFailed s"
  "stageLog (snd (stage_headCoverage env opts s)) =
     stageLog s @ [(''headCoverage'', statusOf (fst (headCoverage_body env opts s)))]"
  "errors (store (snd (stage_headCoverage env opts s)) DataCollector) =
     errors (store s DataCollector) @
     recorded (fst (fst (getCoverage env opts (coverageFile opts) (world s)
                           (store s DataCollector)))) @
     failureRecord ''headCoverage'' (fst (headCoverage_body env opts s))"
  by (simp_all add: stage_headCoverage_def case_prod_unfold addIfDefined_fields
      runStage_hostFailed runStage_stageLog runStage_errors callWith_fields errors_apply_ops,
      simp_all add: headCoverage_body_def callWith_fields errors_apply_ops)

lemma stage_headCoverage_defined:
  "fst (fst (stage_headCoverage env opts s)) = (snd (fst (stage_headCoverage env opts s)) \<noteq> None)"
  by (simp add: stage_headCoverage_def case_prod_unfold runStage_fst split: body_result.splits)

lemma stage_switchToBase_fields:
  "hostFailed (snd (stage_switchToBase env inPR opts s)) = hostFailed s"
  "stageLog (snd (stage_switchToBase env inPR opts s)) =
     stageLog s @
     (if \<not> truthy (baseCoverageFile opts) \<and> shouldRunTestScript env (skipStep opts)
      then [(''switchToBase'', statusOf (fst (switchToBase_body env inPR s)))] else [])"
  "errors (store (snd (stage_switchToBase env inPR opts s)) DataCollector) =
     errors (store s DataCollector) @
     (if \<not> truthy (baseCoverageFile opts) \<and> shouldRunTestScript env (skipStep opts)
      then failureRecord ''switchToBase'' (fst (switchToBase_body env inPR s)) else [])"
  by (simp_all add: stage_switchToBase_def case_prod_unfold runStage_hostFailed
      runStage_stageLog runStage_errors worldOnly_fields [OF worldOnly_switchToBase])

lemma stage_baseCoverage_fields:
  "hostFailed (snd (stage_baseCoverage env opts sw s)) = hostFailed s"
  "stageLog (snd (stage_baseCoverage env opts sw s)) =
     stageLog s @ [(''baseCoverage'', statusOf (fst (baseCoverage_body env opts sw
        (s\<lparr>store := (store s)(IgnoreCollector := createDataCollector)\<rparr>))))]"
  "errors (store (snd (stage_baseCoverage env opts sw s)) DataCollector) =
     errors (store s DataCollector) @
     failureRecord ''baseCoverage'' (fst (baseCoverage_body env opts sw
        (s\<lparr>store := (store s)(IgnoreCollector := createDataCollector)\<rparr>)))"
  by (simp_all add: stage_baseCoverage_def Let_def case_prod_unfold addIfDefined_fields
      runStage_hostFailed runStage_stageLog runStage_errors baseCoverage_body_fields)

lemma stage_generateReportContent_fields:
  "hostFailed (snd (stage_generateReportContent env opts s)) = hostFailed s"
  "stageLog (snd (stage_generateReportContent env opts s)) =
     stageLog s @ [(''generateReportContent'', statusOf (fst (generateReportContent_body env opts s)))]"
  "errors (store (snd (stage_generateReportContent env opts s)) DataCollector) =
     errors (store s DataCollector) @
     recorded (fst (fst (createReport env opts (world s) (store s DataCollector)))) @
     failureRecord ''generateReportContent'' (fst (generateReportContent_body env opts s))"
  by (simp_all add: stage_generateReportContent_def runStage_hostFailed
      runStage_stageLog runStage_errors callWith_fields errors_apply_ops,
      simp_all add: generateReportContent_body_def callWith_fields errors_apply_ops)

lemma stage_generateReportContent_defined:
  "fst (fst (stage_generateReportContent env opts s)) =
     (snd (fst (stage_generateReportContent env opts s)) \<noteq> None)"
  by (simp add: stage_generateReportContent_def runStage_fst split: body_result.splits)

text \<open>A stage whose body acts on the world only: what \<open>runStage\<close> leaves behind.\<close>

lemma runStage_worldOnly:
  assumes "worldOnly m"
  shows "hostFailed (snd (runStage name a m s)) = hostFailed s"
    and "stageLog (snd (runStage name a m s)) = stageLog s @ [(name, statusOf (fst (m s)))]"
    and "errors (store (snd (runStage name a m s)) a) =
           errors (store s a) @ failureRecord name (fst (m s))"
  by (simp_all add: runStage_hostFailed runStage_stageLog runStage_errors
      worldOnly_fields [OF assms])

lemma stage_publishReport_fields:
  "hostFailed (stage_publishReport env inPR opts g r s) = hostFailed s"
  "stageLog (stage_publishReport env inPR opts g r s) =
     stageLog s @ [(''publishReport'', statusOf (fst (publishReport_body env inPR opts g r s)))]"
  "errors (store (stage_publishReport env inPR opts g r s) DataCollector) =
     errors (store s DataCollector) @
     failureRecord ''publishReport'' (fst (publishReport_body env inPR opts g r s))"
  by (simp_all add: stage_publishReport_def runStage_worldOnly [OF worldOnly_publishReport])

lemma stage_failedTestsAnnotations_fields:
  "hostFailed (stage_failedTestsAnnotations env opts g h r s) = hostFailed s"
  "stageLog (stage_failedTestsAnnotations env opts g h r s) =
     stageLog s @ [(''failedTestsAnnotations'',
        statusOf (fst (failedTestsAnnotations_body env opts g h r s)))]"
  "errors (store (stage_failedTestsAnnotations env opts g h r s) DataCollector) =
     errors (store s DataCollector) @
     failureRecord ''failedTestsAnnotations'' (fst (failedTestsAnnotations_body env opts g h r s))"
  by (simp_all add: stage_failedTestsAnnotations_def
      runStage_worldOnly [OF worldOnly_failedTestsAnnotations])

lemma stage_coverageAnnotations_fields:
  "hostFailed (stage_coverageAnnotations env opts g h s) = hostFailed s"
  "stageLog (stage_coverageAnnotations env opts g h s) =
     stageLog s @ [(''coverageAnnotations'',
        statusOf (fst (coverageAnnotations_body env opts g h s)))]"
  "errors (store (stage_coverageAnnotations env opts g h s) DataCollector) =
     errors (store s DataCollector) @
     failureRecord ''coverageAnnotations'' (fst (coverageAnnotations_body env opts g h s))"
  by (simp_all add: stage_coverageAnnotations_def
      runStage_worldOnly [OF worldOnly_coverageAnnotations])

lemma finish_fields:
  "store (finish env s) = store s"
  "stageLog (finish env s) = stageLog s"
  "world (finish env s) = world s"
  "hostFailed (finish env s) =
     (if errors (store s DataCollector) \<noteq> [] then Some (i18n env ''failed'') else hostFailed s)"
  by (simp_all add: finish_def setFailed_def get_def)

lemmas stage_fields = stage_headCoverage_fields stage_switchToBase_fields
  stage_baseCoverage_fields stage_generateReportContent_fields stage_publishReport_fields
  stage_failedTestsAnnotations_fields stage_coverageAnnotations_fields finish_fields

subsection \<open>The whole run\<close>

lemma run_unfold:
  "run env dc w =
     (case getOptions env w of
        (Returned opts, w1) \<Rightarrow>
          (case run_initialized env (eventName env = ''pull_request'') opts
                  (logStage ''initialize'' Completed ((initial dc w)\<lparr>world := w1\<rparr>)) of
             (l, s) \<Rightarrow> (Inr l, s))
      | (Skipped, w1) \<Rightarrow>
          (Inl (Error ''Initialization failed.''),
           logStage ''initialize'' SkippedStage ((initial dc w)\<lparr>world := w1\<rparr>))
      | (Threw e, w1) \<Rightarrow>
          (Inl (Error ''Initialization failed.''),
           logStage ''initialize'' Failed
             (recordError DataCollector ''initialize'' e ((initial dc w)\<lparr>world := w1\<rparr>))))"
proof -
  obtain r w1 where g: "getOptions env w = (r, w1)" by (cases "getOptions env w")
  have w: "world (initial dc w) = w" by (simp add: initial_def)
  show ?thesis
    by (cases r) (simp_all add: run_def runStage_def asBody_def g w Let_def)
qed

lemma run_initialized_hostFailed:
  "hostFailed (snd (run_initialized env inPR opts s1)) =
     (if errors (store (snd (run_initialized env inPR opts s1)) DataCollector) \<noteq> []
      then Some (i18n env ''failed'') else hostFailed s1)"
  by (simp add: run_initialized_def case_prod_unfold Let_def stage_fields)

lemma run_initialized_stages:
  "map fst (stageLog (snd (run_initialized env inPR opts s1))) =
     map fst (stageLog s1) @ [''headCoverage''] @
     (if \<not> truthy (baseCoverageFile opts) \<and> shouldRunTestScript env (skipStep opts)
      then [''switchToBase''] else []) @
     [''baseCoverage'', ''generateReportContent'', ''publishReport'',
      ''failedTestsAnnotations'', ''coverageAnnotations'']"
  by (simp add: run_initialized_def case_prod_unfold Let_def stage_fields)

lemma run_initialized_prefix:
  "prefix (errors (store s1 DataCollector))
     (errors (store (snd (run_initialized env inPR opts s1)) DataCollector))"
  by (simp add: run_initialized_def case_prod_unfold Let_def stage_fields)

lemma run_initialized_locals:
  "isInPR (fst (run_initialized env inPR opts s1)) = inPR"
  "options (fst (run_initialized env inPR opts s1)) = opts"
  "isHeadCoverageGenerated (fst (run_initialized env inPR opts s1)) =
     (headCoverage (fst (run_initialized env inPR opts s1)) \<noteq> None)"
  "isReportContentGenerated (fst (run_initialized env inPR opts s1)) =
     (summaryReport (fst (run_initialized env inPR opts s1)) \<noteq> None)"
  by (simp_all add: run_initialized_def case_prod_unfold Let_def
      stage_headCoverage_defined stage_generateReportContent_defined)

lemma run_Inr:
  assumes "run env dc w = (Inr l, s)"
  obtains opts w1 where "getOptions env w = (Returned opts, w1)"
    and "run_initialized env (eventName env = ''pull_request'') opts
           (logStage ''initialize'' Completed ((initial dc w)\<lparr>world := w1\<rparr>)) = (l, s)"
proof -
  obtain r w1 where g: "getOptions env w = (r, w1)" by (cases "getOptions env w")
  show thesis
  proof (cases r)
    case (Returned opts)
    with assms g have "run_initialized env (eventName env = ''pull_request'') opts
           (logStage ''initialize'' Completed ((initial dc w)\<lparr>world := w1\<rparr>)) = (l, s)"
      by (simp add: run_unfold split: prod.splits)
    with g Returned that show thesis by blast
  next
    case Skipped
    with assms g show thesis by (simp add: run_unfold)
  next
    case (Threw e)
    with assms g show thesis by (simp add: run_unfold)
  qed
qed

subsection \<open>The concrete runs, evaluated\<close>

lemmas scen_defs = scenarioA_def scenarioB_def scenarioC_def scenarioD_checks_def
  scenarioBaseFails_def scenarioBaseFile_def scenarioReportFails_def scenarioNoBase_def
  returns_def throws_def options0_def

lemmas model_defs = body_defs collector_defs headCoverage_body_def switchToBase_body_def
  baseCoverage_body_def generateReportContent_body_def publishReport_body_def
  failedTestsAnnotations_body_def coverageAnnotations_body_def
  stage_headCoverage_def stage_switchToBase_def stage_baseCoverage_def
  stage_generateReportContent_def stage_publishReport_def stage_failedTestsAnnotations_def
  stage_coverageAnnotations_def addIfDefined_def setFailed_def finish_def run_initialized_def
  initial_def run_def runStage_def logStage_def recordError_def

lemma run_scenarioA:
  "run scenarioA createDataCollector [] =
     (Inr \<lparr>isInPR = True, options = options0,
           isHeadCoverageGenerated = True, headCoverage = Some [''coverage'' \<mapsto> ''80''],
           isSwitched = True, baseCoverage = Some [''coverage'' \<mapsto> ''80''],
           isReportContentGenerated = True,
           summaryReport = Some \<lparr>summaryText = ''report'', runReport = ''ok''\<rparr>\<rparr>,
      \<lparr>world =
         [''getOptions'', ''getCoverage'', ''switchBranch'', ''getCoverage'',
          ''createReport'', ''getOctokit'', ''generatePRReport'',
          ''createFailedTestsAnnotations'', ''getOctokit'',
          ''formatFailedTestsAnnotations'', ''checks.create'',
          ''createCoverageAnnotations'', ''getOctokit'',
          ''formatCoverageAnnotations'', ''checks.create''],
       store =
         (\<lambda>_. \<lparr>errors = [], data = Map.empty\<rparr>)
         (IgnoreCollector := \<lparr>errors = [], data = Map.empty\<rparr>,
          DataCollector := \<lparr>errors = [], data = [''coverage'' \<mapsto> ''80'']\<rparr>),
       stageLog =
         [(''initialize'', Completed), (''headCoverage'', Completed),
          (''switchToBase'', Completed), (''baseCoverage'', Completed),
          (''generateReportContent'', Completed), (''publishReport'', Completed),
          (''failedTestsAnnotations'', Completed), (''coverageAnnotations'', Completed)],
       hostFailed = None\<rparr>)"
  by (simp add: model_defs scen_defs)

lemma run_scenarioB:
  "run scenarioB createDataCollector [] =
     (Inl (Error ''Initialization failed.''),
      \<lparr>world = [''getOptions''],
       store =
         (\<lambda>_. \<lparr>errors = [], data = Map.empty\<rparr>)
         (DataCollector :=
            \<lparr>errors = [\<lparr>stage = ''initialize'', cause = ''no token''\<rparr>],
             data = Map.empty\<rparr>),
       stageLog = [(''initialize'', Failed)], hostFailed = None\<rparr>)"
  by (simp add: model_defs scen_defs)

lemma run_scenarioC:
  "run scenarioC createDataCollector [] =
     (Inr \<lparr>isInPR = False, options = options0,
           isHeadCoverageGenerated = True, headCoverage = Some [''coverage'' \<mapsto> ''80''],
           isSwitched = False, baseCoverage = None,
           isReportContentGenerated = True,
           summaryReport = Some \<lparr>summaryText = ''report'', runReport = ''ok''\<rparr>\<rparr>,
      \<lparr>world =
         [''getOptions'', ''getCoverage'', ''createReport'', ''getOctokit'',
          ''generateCommitReport'', ''createFailedTestsAnnotations'',
          ''getOctokit'', ''formatFailedTestsAnnotations'', ''checks.create'',
          ''createCoverageAnnotations'', ''getOctokit'',
          ''formatCoverageAnnotations'', ''checks.create''],
       store =
         (\<lambda>_. \<lparr>errors = [], data = Map.empty\<rparr>)
         (DataCollector := \<lparr>errors = [], data = [''coverage'' \<mapsto> ''80'']\<rparr>,
          IgnoreCollector := \<lparr>errors = [], data = Map.empty\<rparr>),
       stageLog =
         [(''initialize'', Completed), (''headCoverage'', Completed),
          (''switchToBase'', SkippedStage), (''baseCoverage'', SkippedStage),
          (''generateReportContent'', Completed), (''publishReport'', Completed),
          (''failedTestsAnnotations'', Completed), (''coverageAnnotations'', Completed)],
       hostFailed = None\<rparr>)"
  by (simp add: model_defs scen_defs)

lemma run_scenarioD_checks:
  "run scenarioD_checks createDataCollector [] =
     (Inr \<lparr>isInPR = True, options = options0\<lparr>annotations := ''coverage''\<rparr>,
           isHeadCoverageGenerated = True, headCoverage = Some [''coverage'' \<mapsto> ''80''],
           isSwitched = True, baseCoverage = Some [''coverage'' \<mapsto> ''80''],
           isReportContentGenerated = False, summaryReport = None\<rparr>,
      \<lparr>world =
         [''getOptions'', ''getCoverage'', ''switchBranch'', ''getCoverage'',
          ''createReport'', ''createCoverageAnnotations'', ''getOctokit'',
          ''formatCoverageAnnotations'', ''checks.create''],
       store =
         (\<lambda>_. \<lparr>errors = [], data = Map.empty\<rparr>)
         (IgnoreCollector := \<lparr>errors = [], data = Map.empty\<rparr>,
          DataCollector :=
            \<lparr>errors =
               [\<lparr>stage = ''generateReportContent'', cause = ''template missing''\<rparr>,
                \<lparr>stage = ''coverageAnnotations'', cause = ''HTTP 403''\<rparr>],
             data = [''coverage'' \<mapsto> ''80'']\<rparr>),
       stageLog =
         [(''initialize'', Completed), (''headCoverage'', Completed),
          (''switchToBase'', Completed), (''baseCoverage'', Completed),
          (''generateReportContent'', Failed), (''publishReport'', SkippedStage),
          (''failedTestsAnnotations'', SkippedStage), (''coverageAnnotations'', Failed)],
       hostFailed = Some ''i18n:failed''\<rparr>)"
  by (simp add: model_defs scen_defs)

lemma run_scenarioBaseFails:
  "run scenarioBaseFails createDataCollector [] =
     (Inr \<lparr>isInPR = True, options = options0,
           isHeadCoverageGenerated = True, headCoverage = Some [''coverage'' \<mapsto> ''80''],
           isSwitched = True, baseCoverage = None,
           isReportContentGenerated = True,
           summaryReport = Some \<lparr>summaryText = ''report'', runReport = ''ok''\<rparr>\<rparr>,
      \<lparr>world =
         [''getOptions'', ''getCoverage'', ''switchBranch'', ''getCoverage'',
          ''createReport'', ''getOctokit'', ''generatePRReport'',
          ''createFailedTestsAnnotations'', ''getOctokit'',
          ''formatFailedTestsAnnotations'', ''checks.create'',
          ''createCoverageAnnotations'', ''getOctokit'',
          ''formatCoverageAnnotations'', ''checks.create''],
       store =
         (\<lambda>_. \<lparr>errors = [], data = Map.empty\<rparr>)
         (IgnoreCollector :=
            \<lparr>errors = [\<lparr>stage = ''runTest'', cause = ''jest exited with 1''\<rparr>],
             data = Map.empty\<rparr>,
          DataCollector :=
            \<lparr>errors = [\<lparr>stage = ''baseCoverage'', cause = ''no base coverage''\<rparr>],
             data = [''coverage'' \<mapsto> ''80'']\<rparr>),
       stageLog =
         [(''initialize'', Completed), (''headCoverage'', Completed),
          (''switchToBase'', Completed), (''baseCoverage'', Failed),
          (''generateReportContent'', Completed), (''publishReport'', Completed),
          (''failedTestsAnnotations'', Completed), (''coverageAnnotations'', Completed)],
       hostFailed = Some ''i18n:failed''\<rparr>)"
  by (simp add: model_defs scen_defs)

lemma run_scenarioBaseFile:
  "run scenarioBaseFile createDataCollector [] =
     (Inr \<lparr>isInPR = False, options = options0\<lparr>baseCoverageFile := Some ''base.json''\<rparr>,
           isHeadCoverageGenerated = True, headCoverage = Some [''coverage'' \<mapsto> ''80''],
           isSwitched = True, baseCoverage = Some [''coverage'' \<mapsto> ''80''],
           isReportContentGenerated = True,
           summaryReport = Some \<lparr>summaryText = ''report'', runReport = ''ok''\<rparr>\<rparr>,
      \<lparr>world =
         [''getOptions'', ''getCoverage'', ''getCoverage'', ''createReport'',
          ''getOctokit'', ''generateCommitReport'',
          ''createFailedTestsAnnotations'', ''getOctokit'',
          ''formatFailedTestsAnnotations'', ''checks.create'',
          ''createCoverageAnnotations'', ''getOctokit'',
          ''formatCoverageAnnotations'', ''checks.create''],
       store =
         (\<lambda>_. \<lparr>errors = [], data = Map.empty\<rparr>)
         (IgnoreCollector := \<lparr>errors = [], data = Map.empty\<rparr>,
          DataCollector := \<lparr>errors = [], data = [''coverage'' \<mapsto> ''80'']\<rparr>),
       stageLog =
         [(''initialize'', Completed), (''headCoverage'', Completed),
          (''baseCoverage'', Completed), (''generateReportContent'', Completed),
          (''publishReport'', Completed), (''failedTestsAnnotations'', Completed),
          (''coverageAnnotations'', Completed)],
       hostFailed = None\<rparr>)"
  by (simp add: model_defs scen_defs)

subsection \<open>Stage bodies that skip at their gate\<close>

lemma baseCoverage_body_skips: "baseCoverage_body env opts False s = (Skipped, s)"
  by (simp add: baseCoverage_body_def andThen_def skipIf_def skip_def)

lemma publishReport_body_skips: "publishReport_body env inPR opts False report s = (Skipped, s)"
  by (simp add: publishReport_body_def andThen_def skipIf_def skip_def)

lemma failedTestsAnnotations_body_skips:
  "failedTestsAnnotations_body env opts False head report s = (Skipped, s)"
  by (simp add: failedTestsAnnotations_body_def andThen_def skipIf_def skip_def)

lemma coverageAnnotations_body_skips:
  "coverageAnnotations_body env opts False head s = (Skipped, s)"
  by (simp add: coverageAnnotations_body_def andThen_def skipIf_def skip_def)

lemma run_initialized_self_skips:
  "\<not> isSwitched (fst (run_initialized env inPR opts s1)) \<longrightarrow>
     (''baseCoverage'', SkippedStage) \<in> set (stageLog (snd (run_initialized env inPR opts s1)))"
  "\<not> isReportContentGenerated (fst (run_initialized env inPR opts s1)) \<longrightarrow>
     (''publishReport'', SkippedStage) \<in> set (stageLog (snd (run_initialized env inPR opts s1)))"
  "\<not> isHeadCoverageGenerated (fst (run_initialized env inPR opts s1)) \<longrightarrow>
     (''failedTestsAnnotations'', SkippedStage) \<in>
       set (stageLog (snd (run_initialized env inPR opts s1)))"
  "\<not> isHeadCoverageGenerated (fst (run_initialized env inPR opts s1)) \<longrightarrow>
     (''coverageAnnotations'', SkippedStage) \<in>
       set (stageLog (snd (run_initialized env inPR opts s1)))"
  by (simp_all add: run_initialized_def case_prod_unfold Let_def stage_fields statusOf_def
      baseCoverage_body_skips publishReport_body_skips failedTestsAnnotations_body_skips
      coverageAnnotations_body_skips)

text \<open>
  With failed-test annotations requested and a failing test present, a failure of the
  report generation is followed by a second one: \<open>failedTestsAnnotations\<close> is gated on
  the head coverage only and reads \<open>summaryReport!.runReport\<close> (line 166) of an
  undefined \<open>summaryReport\<close>.
\<close>

lemma run_scenarioReportFails:
  "run scenarioReportFails createDataCollector [] =
     (Inr \<lparr>isInPR = True, options = options0,
           isHeadCoverageGenerated = True, headCoverage = Some [''coverage'' \<mapsto> ''80''],
           isSwitched = True, baseCoverage = Some [''coverage'' \<mapsto> ''80''],
           isReportContentGenerated = False, summaryReport = None\<rparr>,
      \<lparr>world =
         [''getOptions'', ''getCoverage'', ''switchBranch'', ''getCoverage'',
          ''createReport'', ''createFailedTestsAnnotations'', ''getOctokit'',
          ''createCoverageAnnotations'', ''getOctokit'',
          ''formatCoverageAnnotations'', ''checks.create''],
       store =
         (\<lambda>_. \<lparr>errors = [], data = Map.empty\<rparr>)
         (IgnoreCollector := \<lparr>errors = [], data = Map.empty\<rparr>,
          DataCollector :=
            \<lparr>errors =
               [\<lparr>stage = ''generateReportContent'', cause = ''template missing''\<rparr>,
                \<lparr>stage = ''failedTestsAnnotations'', cause = TypeError\<rparr>],
             data = [''coverage'' \<mapsto> ''80'']\<rparr>),
       stageLog =
         [(''initialize'', Completed), (''headCoverage'', Completed),
          (''switchToBase'', Completed), (''baseCoverage'', Completed),
          (''generateReportContent'', Failed), (''publishReport'', SkippedStage),
          (''failedTestsAnnotations'', Failed), (''coverageAnnotations'', Completed)],
       hostFailed = Some ''i18n:failed''\<rparr>)"
  by (simp add: model_defs scen_defs)

text \<open>
  With a \<open>pull_request\<close> that carries no \<open>base\<close>, line 62 throws inside the
  \<open>switchToBase\<close> stage: the stage is logged as failed, a \<open>TypeError\<close> record is
  appended, and the \<open>baseCoverage\<close> stage skips.
\<close>

lemma run_scenarioNoBase:
  "run scenarioNoBase createDataCollector [] =
     (Inr \<lparr>isInPR = True, options = options0,
           isHeadCoverageGenerated = True, headCoverage = Some [''coverage'' \<mapsto> ''80''],
           isSwitched = False, baseCoverage = None,
           isReportContentGenerated = True,
           summaryReport = Some \<lparr>summaryText = ''report'', runReport = ''ok''\<rparr>\<rparr>,
      \<lparr>world =
         [''getOptions'', ''getCoverage'', ''createReport'', ''getOctokit'',
          ''generatePRReport'', ''createFailedTestsAnnotations'', ''getOctokit'',
          ''formatFailedTestsAnnotations'', ''checks.create'',
          ''createCoverageAnnotations'', ''getOctokit'',
          ''formatCoverageAnnotations'', ''checks.create''],
       store =
         (\<lambda>_. \<lparr>errors = [], data = Map.empty\<rparr>)
         (DataCollector :=
            \<lparr>errors = [\<lparr>stage = ''switchToBase'', cause = TypeError\<rparr>],
             data = [''coverage'' \<mapsto> ''80'']\<rparr>,
          IgnoreCollector := \<lparr>errors = [], data = Map.empty\<rparr>),
       stageLog =
         [(''initialize'', Completed), (''headCoverage'', Completed),
          (''switchToBase'', Failed), (''baseCoverage'', SkippedStage),
          (''generateReportContent'', Completed), (''publishReport'', Completed),
          (''failedTestsAnnotations'', Completed), (''coverageAnnotations'', Completed)],
       hostFailed = Some ''i18n:failed''\<rparr>)"
  by (simp add: model_defs scen_defs)

section \<open>The claims\<close>

text \<open>
  C1. A run that reaches the final step marks the host process failed, with the
  message \<open>i18n('failed')\<close>, if and only if the error list of the main accumulator is
  non-empty at the end; otherwise the failure marker stays unset. How many stages
  completed plays no role.
\<close>

theorem run_fails_iff_errors:
  assumes "run env dataCollector w = (Inr l, s)"
  shows "(hostFailed s = Some (i18n env ''failed'')) = (errors (store s DataCollector) \<noteq> [])
       \<and> (hostFailed s = None) = (errors (store s DataCollector) = [])"
proof -
  from assms obtain opts w1 where
    ri: "run_initialized env (eventName env = ''pull_request'') opts
           (logStage ''initialize'' Completed ((initial dataCollector w)\<lparr>world := w1\<rparr>)) = (l, s)"
    by (rule run_Inr)
  define s1 where "s1 = logStage ''initialize'' Completed ((initial dataCollector w)\<lparr>world := w1\<rparr>)"
  from ri have s: "s = snd (run_initialized env (eventName env = ''pull_request'') opts s1)"
    by (simp add: s1_def)
  have "hostFailed s1 = None" by (simp add: s1_def logStage_def initial_def)
  then have "hostFailed s =
      (if errors (store s DataCollector) \<noteq> [] then Some (i18n env ''failed'') else None)"
    unfolding s by (simp add: run_initialized_hostFailed)
  then show ?thesis by simp
qed

theorem run_fails_iff_errors_witness:
  "hostFailed (snd (run scenarioBaseFails createDataCollector [])) = Some ''i18n:failed''
   \<and> errors (store (snd (run scenarioBaseFails createDataCollector [])) DataCollector) =
       [\<lparr>stage = ''baseCoverage'', cause = ''no base coverage''\<rparr>]
   \<and> map snd (stageLog (snd (run scenarioBaseFails createDataCollector []))) =
       [Completed, Completed, Completed, Failed, Completed, Completed, Completed, Completed]"
  using run_fails_iff_errors [OF run_scenarioBaseFails]
  by (simp add: run_scenarioBaseFails)

text \<open>
  C2. When the body of a stage throws, \<open>runStage\<close> returns \<open>(false, undefined)\<close>,
  appends exactly one error record \<open>{stage: name, cause}\<close> to the accumulator it was
  given and leaves every other accumulator as the body left it; the result is an
  ordinary value, so the exception goes no further.
\<close>

theorem runStage_absorbs_throw:
  assumes "action s = (Threw e, s')"
  shows "runStage name a action s = ((False, None), logStage name Failed (recordError a name e s'))
       \<and> errors (store (snd (runStage name a action s)) a) =
           errors (store s' a) @ [\<lparr>stage = name, cause = e\<rparr>]
       \<and> (\<forall>b. b \<noteq> a \<longrightarrow> store (snd (runStage name a action s)) b = store s' b)"
  using assms
  by (simp add: runStage_def logStage_def recordError_def errors_addError)

theorem runStage_absorbs_throw_witness:
  "runStage ''publishReport'' DataCollector (call (throws ''getOctokit'' ''bad token'') :: (string list, unit) body)
      (initial createDataCollector []) =
     ((False, None),
      \<lparr>world = [''getOctokit''],
       store = (\<lambda>_. \<lparr>errors = [], data = Map.empty\<rparr>)
         (DataCollector :=
            \<lparr>errors = [\<lparr>stage = ''publishReport'', cause = ''bad token''\<rparr>],
             data = Map.empty\<rparr>),
       stageLog = [(''publishReport'', Failed)], hostFailed = None\<rparr>)"
proof -
  have b: "(call (throws ''getOctokit'' ''bad token'') :: (string list, unit) body)
        (initial createDataCollector []) =
      (Threw ''bad token'', (initial createDataCollector [])\<lparr>world := [''getOctokit'']\<rparr>)"
    by (simp add: call_def throws_def initial_def)
  from runStage_absorbs_throw [where action = "call (throws ''getOctokit'' ''bad token'') :: (string list, unit) body"
      and s = "initial createDataCollector ([] :: string list)" and name = "''publishReport''"
      and a = DataCollector, OF b]
  show ?thesis
    by (simp add: logStage_def recordError_def initial_def collector_defs)
qed

text \<open>
  C4. When the first action of a stage body is \<open>skip()\<close>, \<open>runStage\<close> returns
  \<open>(false, undefined)\<close> and the state after the stage is the state before it, but for
  the telemetry entry: no error record is added and nothing of the rest of the body
  has run, whatever that rest is.
\<close>

theorem runStage_skip_first:
  "runStage name a (andThen skip rest) s = ((False, None), logStage name SkippedStage s)
   \<and> runStage name a (andThen (skipIf True) rest) s = ((False, None), logStage name SkippedStage s)
   \<and> store (logStage name SkippedStage s) = store s
   \<and> world (logStage name SkippedStage s) = world s"
  by (simp add: runStage_def andThen_def skipIf_def skip_def logStage_def)

theorem runStage_skip_first_witness:
  "runStage ''switchToBase'' DataCollector
      (andThen (skip :: (string list, unit) body) (\<lambda>_. call (returns ''switchBranch'' ())))
      (initial createDataCollector []) =
     ((False, None),
      \<lparr>world = [],
       store = (\<lambda>_. \<lparr>errors = [], data = Map.empty\<rparr>)
         (DataCollector := \<lparr>errors = [], data = Map.empty\<rparr>),
       stageLog = [(''switchToBase'', SkippedStage)], hostFailed = None\<rparr>)"
  using runStage_skip_first [of "''switchToBase''" DataCollector
      "\<lambda>_ :: unit. call (returns ''switchBranch'' ())" "initial createDataCollector ([] :: string list)"]
  by (simp add: logStage_def initial_def collector_defs)

text \<open>
  C3. When the initialization stage does not complete or yields no options, \<open>run\<close>
  throws \<open>Error('Initialization failed.')\<close> in the state the initialization stage left:
  only that stage is logged and the world is as \<open>getOptions\<close> left it, so no later
  stage has run. In every other case \<open>run\<close> returns normally, whatever the later
  stages do: no other stage can abort the run.
\<close>

theorem initialization_failure_aborts:
  assumes "runStage ''initialize'' DataCollector (asBody (getOptions env))
             (initial dataCollector w) = ((initialized, opts), s1)"
  shows "(\<not> initialized \<or> opts = None \<longrightarrow>
            run env dataCollector w = (Inl (Error ''Initialization failed.''), s1)
          \<and> map fst (stageLog s1) = [''initialize'']
          \<and> world s1 = snd (getOptions env w)
          \<and> hostFailed s1 = None)
       \<and> (\<not> (\<not> initialized \<or> opts = None) \<longrightarrow>
            (\<exists>l s. run env dataCollector w = (Inr l, s)))"
proof -
  have lg: "map fst (stageLog s1) = [''initialize'']"
    using runStage_stageLog [of "''initialize''" DataCollector "asBody (getOptions env)"
        "initial dataCollector w"] assms
    by (simp add: worldOnly_fields [OF worldOnly_asBody] initial_def)
  have wd: "world s1 = snd (getOptions env w)"
    using runStage_world [of "''initialize''" DataCollector "asBody (getOptions env)"
        "initial dataCollector w"] assms
    by (simp add: asBody_def initial_def case_prod_unfold)
  have hf: "hostFailed s1 = None"
    using runStage_hostFailed [of "''initialize''" DataCollector "asBody (getOptions env)"
        "initial dataCollector w"] assms
    by (simp add: worldOnly_fields [OF worldOnly_asBody] initial_def)
  have ab: "\<not> initialized \<or> opts = None \<Longrightarrow>
      run env dataCollector w = (Inl (Error ''Initialization failed.''), s1)"
    using assms by (simp add: run_def)
  have ok: "\<not> (\<not> initialized \<or> opts = None) \<Longrightarrow> \<exists>l s. run env dataCollector w = (Inr l, s)"
    using assms by (auto simp add: run_def split: prod.splits)
  from lg wd hf ab ok show ?thesis by blast
qed

theorem initialization_failure_aborts_witness:
  "fst (run scenarioB createDataCollector []) = Inl (Error ''Initialization failed.'')
   \<and> map fst (stageLog (snd (run scenarioB createDataCollector []))) = [''initialize'']
   \<and> world (snd (run scenarioB createDataCollector [])) = [''getOptions'']
   \<and> hostFailed (snd (run scenarioB createDataCollector [])) = None"
proof -
  define s1 where "s1 = snd (runStage ''initialize'' DataCollector
      (asBody (getOptions scenarioB)) (initial createDataCollector []))"
  have r: "runStage ''initialize'' DataCollector (asBody (getOptions scenarioB))
      (initial createDataCollector []) = ((False, None), s1)"
    by (simp add: s1_def runStage_def asBody_def scen_defs)
  from initialization_failure_aborts [OF r]
  have 1: "run scenarioB createDataCollector [] = (Inl (Error ''Initialization failed.''), s1)"
    and 2: "map fst (stageLog s1) = [''initialize'']"
    and 3: "world s1 = snd (getOptions scenarioB [])"
    and 4: "hostFailed s1 = None"
    by simp_all
  have 5: "snd (getOptions scenarioB []) = [''getOptions'']"
    by (simp add: scen_defs)
  from 1 2 3 4 5 show ?thesis by simp
qed

text \<open>
  C6, as the code has it. The stages a run invokes, in order and once each, are:
  \<open>initialize\<close> alone when the initialization fails; otherwise \<open>initialize\<close>,
  \<open>headCoverage\<close>, then \<open>switchToBase\<close> only when no base coverage file is configured
  and \<open>shouldRunTestScript(options.skipStep)\<close> holds, then \<open>baseCoverage\<close>,
  \<open>generateReportContent\<close>, \<open>publishReport\<close>, \<open>failedTestsAnnotations\<close> and
  \<open>coverageAnnotations\<close>. A stage gated on an earlier completion is invoked all the
  same and skips itself: \<open>baseCoverage\<close> when \<open>isSwitched\<close> is false, \<open>publishReport\<close>
  when \<open>isReportContentGenerated\<close> is false, and both annotation stages when
  \<open>isHeadCoverageGenerated\<close> is false.
\<close>

theorem run_stage_sequence:
  "map fst (stageLog (snd (run env dataCollector w))) =
     (case fst (run env dataCollector w) of
        Inl e \<Rightarrow> [''initialize'']
      | Inr l \<Rightarrow>
          [''initialize'', ''headCoverage''] @
          (if \<not> truthy (baseCoverageFile (options l)) \<and>
              shouldRunTestScript env (skipStep (options l))
           then [''switchToBase''] else []) @
          [''baseCoverage'', ''generateReportContent'', ''publishReport'',
           ''failedTestsAnnotations'', ''coverageAnnotations''])
   \<and> distinct (map fst (stageLog (snd (run env dataCollector w))))
   \<and> (\<forall>l. fst (run env dataCollector w) = Inr l \<longrightarrow>
         (\<not> isSwitched l \<longrightarrow>
            (''baseCoverage'', SkippedStage) \<in> set (stageLog (snd (run env dataCollector w))))
       \<and> (\<not> isReportContentGenerated l \<longrightarrow>
            (''publishReport'', SkippedStage) \<in> set (stageLog (snd (run env dataCollector w))))
       \<and> (\<not> isHeadCoverageGenerated l \<longrightarrow>
            (''failedTestsAnnotations'', SkippedStage) \<in>
              set (stageLog (snd (run env dataCollector w)))
          \<and> (''coverageAnnotations'', SkippedStage) \<in>
              set (stageLog (snd (run env dataCollector w)))))"
proof -
  obtain r w1 where g: "getOptions env w = (r, w1)" by (cases "getOptions env w")
  have names: "map fst (stageLog (snd (run env dataCollector w))) =
     (case fst (run env dataCollector w) of
        Inl e \<Rightarrow> [''initialize'']
      | Inr l \<Rightarrow>
          [''initialize'', ''headCoverage''] @
          (if \<not> truthy (baseCoverageFile (options l)) \<and>
              shouldRunTestScript env (skipStep (options l))
           then [''switchToBase''] else []) @
          [''baseCoverage'', ''generateReportContent'', ''publishReport'',
           ''failedTestsAnnotations'', ''coverageAnnotations''])"
  proof (cases r)
    case (Returned opts)
    with g show ?thesis
      by (simp add: run_unfold case_prod_unfold run_initialized_stages run_initialized_locals
          logStage_def initial_def)
  next
    case Skipped
    with g show ?thesis by (simp add: run_unfold logStage_def initial_def)
  next
    case (Threw e)
    with g show ?thesis by (simp add: run_unfold logStage_def recordError_def initial_def)
  qed
  have once: "distinct (map fst (stageLog (snd (run env dataCollector w))))"
    unfolding names by (cases "fst (run env dataCollector w)") simp_all
  have skips: "(\<not> isSwitched l \<longrightarrow>
            (''baseCoverage'', SkippedStage) \<in> set (stageLog (snd (run env dataCollector w))))
       \<and> (\<not> isReportContentGenerated l \<longrightarrow>
            (''publishReport'', SkippedStage) \<in> set (stageLog (snd (run env dataCollector w))))
       \<and> (\<not> isHeadCoverageGenerated l \<longrightarrow>
            (''failedTestsAnnotations'', SkippedStage) \<in>
              set (stageLog (snd (run env dataCollector w)))
          \<and> (''coverageAnnotations'', SkippedStage) \<in>
              set (stageLog (snd (run env dataCollector w))))"
    if "fst (run env dataCollector w) = Inr l" for l
  proof -
    from that have "run env dataCollector w = (Inr l, snd (run env dataCollector w))"
      by (metis prod.collapse)
    then obtain opts w2 where
      ri: "run_initialized env (eventName env = ''pull_request'') opts
             (logStage ''initialize'' Completed ((initial dataCollector w)\<lparr>world := w2\<rparr>)) =
           (l, snd (run env dataCollector w))"
      by (rule run_Inr)
    from run_initialized_self_skips [of env "eventName env = ''pull_request''" opts
        "logStage ''initialize'' Completed ((initial dataCollector w)\<lparr>world := w2\<rparr>)"]
    show ?thesis unfolding ri fst_conv snd_conv by blast
  qed
  from names once skips show ?thesis by blast
qed

theorem run_stage_sequence_witness:
  "stageLog (snd (run scenarioC createDataCollector [])) =
     [(''initialize'', Completed), (''headCoverage'', Completed),
      (''switchToBase'', SkippedStage), (''baseCoverage'', SkippedStage),
      (''generateReportContent'', Completed), (''publishReport'', Completed),
      (''failedTestsAnnotations'', Completed), (''coverageAnnotations'', Completed)]
   \<and> \<not> isSwitched (projr (fst (run scenarioC createDataCollector [])))
   \<and> (''baseCoverage'', SkippedStage) \<in> set (stageLog (snd (run scenarioC createDataCollector [])))"
  using run_stage_sequence [of scenarioC createDataCollector "[]"]
  by (simp add: run_scenarioC)

text \<open>
  C6, as stated, fails: with a base coverage file configured the run never invokes
  \<open>switchToBase\<close>, while the run of scenario A does.
\<close>

theorem run_stage_sequence_counterexample:
  "map fst (stageLog (snd (run scenarioBaseFile createDataCollector []))) =
     [''initialize'', ''headCoverage'', ''baseCoverage'', ''generateReportContent'',
      ''publishReport'', ''failedTestsAnnotations'', ''coverageAnnotations'']
   \<and> map fst (stageLog (snd (run scenarioA createDataCollector []))) =
     [''initialize'', ''headCoverage'', ''switchToBase'', ''baseCoverage'',
      ''generateReportContent'', ''publishReport'', ''failedTestsAnnotations'',
      ''coverageAnnotations'']"
  by (simp add: run_scenarioBaseFile run_scenarioA)

text \<open>
  C9. The error list of an accumulator only grows: \<open>add\<close> leaves it as it is,
  \<open>addError\<close> and any sequence of operations of a collaborator extend it, \<open>runStage\<close>
  extends what the body left, every stage of \<open>run\<close> extends the list of the main
  accumulator, and so does the whole run, aborted or not.
\<close>

theorem errors_append_only:
  "errors (add partial c) = errors c
   \<and> prefix (errors c) (errors (addError name e c))
   \<and> prefix (errors c) (errors (apply_ops ops c))
   \<and> prefix (errors (store (snd (action s)) b)) (errors (store (snd (runStage name a action s)) b))
   \<and> prefix (errors (store s DataCollector))
        (errors (store (snd (stage_headCoverage env opts s)) DataCollector))
   \<and> prefix (errors (store s DataCollector))
        (errors (store (snd (stage_switchToBase env inPR opts s)) DataCollector))
   \<and> prefix (errors (store s DataCollector))
        (errors (store (snd (stage_baseCoverage env opts switched s)) DataCollector))
   \<and> prefix (errors (store s DataCollector))
        (errors (store (snd (stage_generateReportContent env opts s)) DataCollector))
   \<and> prefix (errors (store s DataCollector))
        (errors (store (stage_publishReport env inPR opts generated report s) DataCollector))
   \<and> prefix (errors (store s DataCollector))
        (errors (store (stage_failedTestsAnnotations env opts headGenerated head report s)
           DataCollector))
   \<and> prefix (errors (store s DataCollector))
        (errors (store (stage_coverageAnnotations env opts headGenerated head s) DataCollector))
   \<and> errors (store (finish env s) DataCollector) = errors (store s DataCollector)
   \<and> prefix (errors dataCollector) (errors (store (snd (run env dataCollector w)) DataCollector))
   \<and> length (errors dataCollector) \<le>
        length (errors (store (snd (run env dataCollector w)) DataCollector))"
proof -
  have run: "prefix (errors dataCollector)
      (errors (store (snd (run env dataCollector w)) DataCollector))"
  proof -
    obtain r w1 where g: "getOptions env w = (r, w1)" by (cases "getOptions env w")
    show ?thesis
    proof (cases r)
      case (Returned o1)
      have "prefix (errors (store (logStage ''initialize'' Completed
                ((initial dataCollector w)\<lparr>world := w1\<rparr>)) DataCollector))
          (errors (store (snd (run_initialized env (eventName env = ''pull_request'') o1
             (logStage ''initialize'' Completed ((initial dataCollector w)\<lparr>world := w1\<rparr>))))
             DataCollector))"
        by (rule run_initialized_prefix)
      with g Returned show ?thesis
        by (simp add: run_unfold case_prod_unfold logStage_def initial_def)
    next
      case Skipped
      with g show ?thesis by (simp add: run_unfold logStage_def initial_def)
    next
      case (Threw e)
      with g show ?thesis
        by (simp add: run_unfold logStage_def recordError_def initial_def errors_addError)
    qed
  qed
  have stage: "prefix (errors (store (snd (action s)) b))
      (errors (store (snd (runStage name a action s)) b))"
    by (simp add: runStage_store errors_addError split: body_result.splits)
  from run have len: "length (errors dataCollector) \<le>
      length (errors (store (snd (run env dataCollector w)) DataCollector))"
    by (rule prefix_length_le)
  show ?thesis
    by (intro conjI run stage len)
      (simp_all add: errors_add errors_addError errors_apply_ops stage_fields)
qed

theorem errors_append_only_witness:
  "prefix (errors createDataCollector)
     (errors (store (snd (run scenarioD_checks createDataCollector [])) DataCollector))
   \<and> errors (store (snd (run scenarioD_checks createDataCollector [])) DataCollector) =
     [\<lparr>stage = ''generateReportContent'', cause = ''template missing''\<rparr>,
      \<lparr>stage = ''coverageAnnotations'', cause = ''HTTP 403''\<rparr>]
   \<and> prefix (errors createDataCollector)
       (errors (addError ''initialize'' ''no token'' createDataCollector))"
  using errors_append_only [where env = scenarioD_checks and dataCollector = createDataCollector
      and w = "[]" and c = createDataCollector and name = "''initialize''" and e = "''no token''"
      and partial = Map.empty and ops = "[]" and a = DataCollector and b = DataCollector
      and action = "ret () :: (string list, unit) body"
      and s = "initial createDataCollector []" and opts = options0 and inPR = True
      and switched = True and generated = False and report = None and headGenerated = True
      and head = None]
  by (simp add: run_scenarioD_checks)

text \<open>
  C8, as the code has it. Let the run be outside a pull-request event or have no base
  branch identified, with \<open>pull_request?.base.ref\<close> evaluating (the payload has no
  \<open>pull_request\<close>, or one that carries a \<open>base\<close>), and let the \<open>switchToBase\<close> stage be
  entered at all (no base coverage file is configured and
  \<open>shouldRunTestScript(options.skipStep)\<close> holds). Then that stage calls \<open>skip()\<close>: its
  outcome is \<open>(false, undefined)\<close>, it is logged as skipped and it changes nothing
  else. The \<open>baseCoverage\<close> stage then sees \<open>isSwitched = false\<close> and calls \<open>skip()\<close> too:
  it only creates the empty \<open>ignoreCollector\<close>, yields no base coverage, and is logged
  as skipped. Neither stage touches the error list or calls a collaborator.
\<close>

theorem no_base_branch_skips_both:
  assumes run: "run env dataCollector w = (Inr l, s)"
    and ref: "pullRequestBaseRef (payload_pull_request env) = Inr baseBranch"
    and noBase: "eventName env \<noteq> ''pull_request'' \<or> \<not> truthy baseBranch"
    and noFile: "\<not> truthy (baseCoverageFile (options l))"
    and script: "shouldRunTestScript env (skipStep (options l))"
  shows "\<not> isSwitched l \<and> baseCoverage l = None
       \<and> (''switchToBase'', SkippedStage) \<in> set (stageLog s)
       \<and> (''baseCoverage'', SkippedStage) \<in> set (stageLog s)
       \<and> (\<forall>s0. runStage ''switchToBase'' DataCollector (switchToBase_body env (isInPR l)) s0 =
              ((False, None), logStage ''switchToBase'' SkippedStage s0))
       \<and> (\<forall>s0. stage_switchToBase env (isInPR l) (options l) s0 =
              (False, logStage ''switchToBase'' SkippedStage s0))
       \<and> (\<forall>s0. stage_baseCoverage env (options l) (isSwitched l) s0 =
              (None, logStage ''baseCoverage'' SkippedStage
                       (s0\<lparr>store := (store s0)(IgnoreCollector := createDataCollector)\<rparr>)))"
proof -
  from run obtain opts w1 where
    ri: "run_initialized env (eventName env = ''pull_request'') opts
           (logStage ''initialize'' Completed ((initial dataCollector w)\<lparr>world := w1\<rparr>)) = (l, s)"
    by (rule run_Inr)
  define inPR where "inPR = (eventName env = ''pull_request'')"
  define s1 where "s1 = logStage ''initialize'' Completed ((initial dataCollector w)\<lparr>world := w1\<rparr>)"
  from ri have l: "l = fst (run_initialized env inPR opts s1)"
    and s: "s = snd (run_initialized env inPR opts s1)"
    by (simp_all add: inPR_def s1_def)
  have o: "options l = opts" and p: "isInPR l = inPR"
    unfolding l by (rule run_initialized_locals)+
  from noBase have nb: "\<not> inPR \<or> \<not> truthy baseBranch"
    by (simp add: inPR_def)
  have body: "switchToBase_body env inPR s0 = (Skipped, s0)" for s0 :: "'a state"
    using nb ref
    by (auto simp add: switchToBase_body_def evaluate_def andThen_def skipIf_def skip_def ret_def)
  have rs: "runStage ''switchToBase'' DataCollector (switchToBase_body env inPR) s0 =
      ((False, None), logStage ''switchToBase'' SkippedStage s0)" for s0 :: "'a state"
    by (simp add: runStage_def body)
  have sw: "stage_switchToBase env inPR opts s0 =
      (False, logStage ''switchToBase'' SkippedStage s0)" for s0 :: "'a state"
    using noFile script by (simp add: stage_switchToBase_def rs o)
  have bc: "stage_baseCoverage env opts False s0 =
      (None, logStage ''baseCoverage'' SkippedStage
               (s0\<lparr>store := (store s0)(IgnoreCollector := createDataCollector)\<rparr>))"
    for s0 :: "'a state"
    by (simp add: stage_baseCoverage_def baseCoverage_body_skips runStage_def
        addIfDefined_def Let_def)
  have isw: "\<not> isSwitched l" and base: "baseCoverage l = None"
    unfolding l by (simp_all add: run_initialized_def case_prod_unfold Let_def sw bc)
  have lg: "(''switchToBase'', SkippedStage) \<in> set (stageLog s)"
    "(''baseCoverage'', SkippedStage) \<in> set (stageLog s)"
    unfolding s
    by (simp_all add: run_initialized_def case_prod_unfold Let_def sw bc stage_fields
        logStage_def)
  from isw base lg rs sw bc show ?thesis
    by (simp add: o p)
qed

theorem no_base_branch_skips_both_witness:
  "\<not> isSwitched (projr (fst (run scenarioC createDataCollector [])))
   \<and> baseCoverage (projr (fst (run scenarioC createDataCollector []))) = None
   \<and> stageLog (snd (run scenarioC createDataCollector [])) =
       [(''initialize'', Completed), (''headCoverage'', Completed),
        (''switchToBase'', SkippedStage), (''baseCoverage'', SkippedStage),
        (''generateReportContent'', Completed), (''publishReport'', Completed),
        (''failedTestsAnnotations'', Completed), (''coverageAnnotations'', Completed)]
   \<and> errors (store (snd (run scenarioC createDataCollector [])) DataCollector) = []
   \<and> ''switchBranch'' \<notin> set (world (snd (run scenarioC createDataCollector [])))"
proof -
  have 0: "pullRequestBaseRef (payload_pull_request scenarioC) = Inr None"
    by (simp add: pullRequestBaseRef_def scen_defs)
  have 1: "eventName scenarioC \<noteq> ''pull_request'' \<or> \<not> truthy None"
    by (simp add: scen_defs)
  have 2: "\<not> truthy (baseCoverageFile (options
      \<lparr>isInPR = False, options = options0,
           isHeadCoverageGenerated = True, headCoverage = Some [''coverage'' \<mapsto> ''80''],
           isSwitched = False, baseCoverage = None,
           isReportContentGenerated = True,
           summaryReport = Some \<lparr>summaryText = ''report'', runReport = ''ok''\<rparr>\<rparr>))"
    by (simp add: truthy_def options0_def)
  have 3: "shouldRunTestScript scenarioC (skipStep (options
      \<lparr>isInPR = False, options = options0,
           isHeadCoverageGenerated = True, headCoverage = Some [''coverage'' \<mapsto> ''80''],
           isSwitched = False, baseCoverage = None,
           isReportContentGenerated = True,
           summaryReport = Some \<lparr>summaryText = ''report'', runReport = ''ok''\<rparr>\<rparr>))"
    by (simp add: scen_defs)
  from no_base_branch_skips_both [OF run_scenarioC 0 1 2 3] show ?thesis
    by (simp add: run_scenarioC)
qed

text \<open>
  C8, as stated, fails: on a push event with a base coverage file configured the
  \<open>switchToBase\<close> stage is not entered, \<open>isSwitched\<close> keeps its initial value \<open>true\<close>,
  and the \<open>baseCoverage\<close> stage runs to completion and yields base coverage.
\<close>

theorem no_base_branch_skips_both_counterexample:
  "eventName scenarioBaseFile \<noteq> ''pull_request''
   \<and> payload_pull_request scenarioBaseFile = None
   \<and> isSwitched (projr (fst (run scenarioBaseFile createDataCollector [])))
   \<and> baseCoverage (projr (fst (run scenarioBaseFile createDataCollector []))) =
       Some [''coverage'' \<mapsto> ''80'']
   \<and> stageLog (snd (run scenarioBaseFile createDataCollector [])) =
       [(''initialize'', Completed), (''headCoverage'', Completed),
        (''baseCoverage'', Completed), (''generateReportContent'', Completed),
        (''publishReport'', Completed), (''failedTestsAnnotations'', Completed),
        (''coverageAnnotations'', Completed)]"
  by (simp add: run_scenarioBaseFile) (simp add: scen_defs)




text \<open>
  C7, on the code. In scenario D the report generation throws once and no collaborator
  fails besides: the \<open>generateReportContent\<close> record is appended and the publish stage
  skips, as the claim says. But the run does not end with one record:
  \<open>failedTestsAnnotations\<close> is gated on the head coverage only, reads
  \<open>summaryReport!.runReport\<close> (line 166) of the undefined \<open>summaryReport\<close> and is recorded
  as a second failure. The final error list has length 2.
\<close>

theorem report_failure_leaves_two_records:
  "stageLog (snd (run scenarioReportFails createDataCollector [])) =
     [(''initialize'', Completed), (''headCoverage'', Completed),
      (''switchToBase'', Completed), (''baseCoverage'', Completed),
      (''generateReportContent'', Failed), (''publishReport'', SkippedStage),
      (''failedTestsAnnotations'', Failed), (''coverageAnnotations'', Completed)]
   \<and> errors (store (snd (run scenarioReportFails createDataCollector [])) DataCollector) =
     [\<lparr>stage = ''generateReportContent'', cause = ''template missing''\<rparr>,
      \<lparr>stage = ''failedTestsAnnotations'', cause = TypeError\<rparr>]
   \<and> hostFailed (snd (run scenarioReportFails createDataCollector [])) = Some ''i18n:failed''"
  by (simp add: run_scenarioReportFails)

theorem report_failure_leaves_two_records_witness:
  "length (errors (store (snd (run scenarioReportFails createDataCollector [])) DataCollector)) = 2
   \<and> length (filter (\<lambda>x. snd x = Failed)
        (stageLog (snd (run scenarioReportFails createDataCollector [])))) = 2"
  using report_failure_leaves_two_records by simp

text \<open>
  C10, on the code. The two dereferences the claim names sit behind the flag of the
  stage that produced the value. A third one in the cited lines does not: the
  \<open>failedTestsAnnotations\<close> stage reads \<open>summaryReport!.runReport\<close> (line 166) behind
  \<open>isHeadCoverageGenerated\<close> only. When the report generation did not complete,
  \<open>summaryReport\<close> is undefined, and as soon as the head coverage is there, failed-test
  annotations are requested, one exists and the Octokit client is obtained, the read
  throws a \<open>TypeError\<close>.
\<close>

theorem failedTestsAnnotations_reads_undefined_report:
  assumes "annotations opts \<in> set [''all'', ''failed-tests'']"
    and "createFailedTestsAnnotations env head (world s) = (Inr failedAnnotations, w1)"
    and "failedAnnotations \<noteq> []"
    and "getOctokit env (token opts) w1 = (Inr octokit, w2)"
  shows "failedTestsAnnotations_body env opts True head None s =
           (Threw TypeError, s\<lparr>world := w2\<rparr>)
       \<and> snd (runStage ''failedTestsAnnotations'' DataCollector
                 (failedTestsAnnotations_body env opts True head None) s) =
           logStage ''failedTestsAnnotations'' Failed
             (recordError DataCollector ''failedTestsAnnotations'' TypeError (s\<lparr>world := w2\<rparr>))"
proof -
  have b: "failedTestsAnnotations_body env opts True head None s =
      (Threw TypeError, s\<lparr>world := w2\<rparr>)"
    using assms
    by (simp add: failedTestsAnnotations_body_def andThen_def skipIf_def ret_def call_def
        nonNull_def throw_def)
  then show ?thesis by (simp add: runStage_def)
qed

theorem failedTestsAnnotations_reads_undefined_report_witness:
  "isHeadCoverageGenerated (projr (fst (run scenarioReportFails createDataCollector [])))
   \<and> summaryReport (projr (fst (run scenarioReportFails createDataCollector []))) = None
   \<and> fst (failedTestsAnnotations_body scenarioReportFails options0 True
        (Some [''coverage'' \<mapsto> ''80'']) None
        (initial createDataCollector [''getOptions'', ''getCoverage'', ''switchBranch'',
           ''getCoverage'', ''createReport''])) = Threw TypeError
   \<and> (''failedTestsAnnotations'', Failed) \<in>
        set (stageLog (snd (run scenarioReportFails createDataCollector [])))"
proof -
  define s0 :: "string list state" where
    "s0 = initial createDataCollector [''getOptions'', ''getCoverage'', ''switchBranch'',
           ''getCoverage'', ''createReport'']"
  have 1: "annotations options0 \<in> set [''all'', ''failed-tests'']"
    by (simp add: options0_def)
  have 2: "createFailedTestsAnnotations scenarioReportFails (Some [''coverage'' \<mapsto> ''80''])
      (world s0) = (Inr [''a test failed''], world s0 @ [''createFailedTestsAnnotations''])"
    by (simp add: scen_defs)
  have 3: "[''a test failed''] \<noteq> []" by simp
  have 4: "getOctokit scenarioReportFails (token options0)
      (world s0 @ [''createFailedTestsAnnotations'']) =
      (Inr ''octokit'', world s0 @ [''createFailedTestsAnnotations'', ''getOctokit''])"
    by (simp add: scen_defs)
  from failedTestsAnnotations_reads_undefined_report [OF 1 2 3 4]
  have "fst (failedTestsAnnotations_body scenarioReportFails options0 True
        (Some [''coverage'' \<mapsto> ''80'']) None s0) = Threw TypeError"
    by simp
  then show ?thesis
    unfolding s0_def by (simp add: run_scenarioReportFails)
qed

end
